theory Spec2Isabelle
  imports Main
begin

section \<open>JavaScript values\<close>

text \<open>
  A JavaScript string is modelled as a \<open>string\<close> holding its UTF-8 bytes. The only
  characters the code inspects (the comma, the dot, letters, digits, underscore and hyphen,
  and the text \<open>image/\<close>) are ASCII, and no byte of a multi-byte UTF-8 character is ASCII.
  A value of type \<open>string | null\<close> (or \<open>undefined\<close>) is a \<open>string option\<close>.
\<close>

text \<open>Truthiness of a \<open>string | null\<close>: \<open>null\<close>, \<open>undefined\<close> and the empty string are falsy.\<close>

definition truthy :: "string option \<Rightarrow> bool" where
  "truthy v = (case v of None \<Rightarrow> False | Some s \<Rightarrow> s \<noteq> [])"

text \<open>
  A thrown value: an instance of \<open>Error\<close> with its message (a \<open>TypeError\<close> is one), or
  any value that is not an instance of \<open>Error\<close>.
\<close>

datatype thrown = Error string | NonError

section \<open>Message texts\<close>

text \<open>geminiService.ts line 10: the message of the error thrown when API_KEY is not set.\<close>

definition MSG_NO_API_KEY :: string where
  "MSG_NO_API_KEY =
     [CHR 0xE6, CHR 0x9C, CHR 0xAA, CHR 0xE8, CHR 0xAE, CHR 0xBE] @
     [CHR 0xE7, CHR 0xBD, CHR 0xAE] @
     '' API_KEY '' @
     [CHR 0xE7, CHR 0x8E, CHR 0xAF, CHR 0xE5, CHR 0xA2, CHR 0x83] @
     [CHR 0xE5, CHR 0x8F, CHR 0x98, CHR 0xE9, CHR 0x87, CHR 0x8F]"

text \<open>geminiService.ts line 42: the message of the error thrown when no part of the response carries inline data.\<close>

definition MSG_NO_IMAGE :: string where
  "MSG_NO_IMAGE =
     [CHR 0xE5, CHR 0x9C, CHR 0xA8] @
     '' Gemini API '' @
     [CHR 0xE7, CHR 0x9A, CHR 0x84, CHR 0xE5, CHR 0x93, CHR 0x8D] @
     [CHR 0xE5, CHR 0xBA, CHR 0x94, CHR 0xE4, CHR 0xB8, CHR 0xAD] @
     [CHR 0xE6, CHR 0x9C, CHR 0xAA, CHR 0xE6, CHR 0x89, CHR 0xBE] @
     [CHR 0xE5, CHR 0x88, CHR 0xB0, CHR 0xE5, CHR 0x9B, CHR 0xBE] @
     [CHR 0xE5, CHR 0x83, CHR 0x8F, CHR 0xE6, CHR 0x95, CHR 0xB0] @
     [CHR 0xE6, CHR 0x8D, CHR 0xAE, CHR 0xE3, CHR 0x80, CHR 0x82]"

text \<open>geminiService.ts line 46: the text put before the message of a caught Error.\<close>

definition MSG_API_PREFIX :: string where
  "MSG_API_PREFIX =
     ''Gemini API '' @
     [CHR 0xE9, CHR 0x94, CHR 0x99, CHR 0xE8, CHR 0xAF, CHR 0xAF] @
     [CHR 0xEF, CHR 0xBC, CHR 0x9A] @
     '' ''"

text \<open>geminiService.ts line 48: the message used when the caught value is not an Error.\<close>

definition MSG_UNEXPECTED :: string where
  "MSG_UNEXPECTED =
     [CHR 0xE4, CHR 0xB8, CHR 0x8E] @
     '' Gemini API '' @
     [CHR 0xE9, CHR 0x80, CHR 0x9A, CHR 0xE4, CHR 0xBF, CHR 0xA1] @
     [CHR 0xE6, CHR 0x97, CHR 0xB6, CHR 0xE5, CHR 0x8F, CHR 0x91] @
     [CHR 0xE7, CHR 0x94, CHR 0x9F, CHR 0xE6, CHR 0x84, CHR 0x8F] @
     [CHR 0xE5, CHR 0xA4, CHR 0x96, CHR 0xE9, CHR 0x94, CHR 0x99] @
     [CHR 0xE8, CHR 0xAF, CHR 0xAF, CHR 0xE3, CHR 0x80, CHR 0x82]"

text \<open>App, line 29: the error shown when the file cannot be decoded.\<close>

definition MSG_LOAD_FAILED :: string where
  "MSG_LOAD_FAILED =
     [CHR 0xE5, CHR 0x8A, CHR 0xA0, CHR 0xE8, CHR 0xBD, CHR 0xBD] @
     [CHR 0xE5, CHR 0x9B, CHR 0xBE, CHR 0xE5, CHR 0x83, CHR 0x8F] @
     [CHR 0xE5, CHR 0xA4, CHR 0xB1, CHR 0xE8, CHR 0xB4, CHR 0xA5] @
     [CHR 0xE3, CHR 0x80, CHR 0x82, CHR 0xE8, CHR 0xAF, CHR 0xB7] @
     [CHR 0xE5, CHR 0xB0, CHR 0x9D, CHR 0xE8, CHR 0xAF, CHR 0x95] @
     [CHR 0xE5, CHR 0x85, CHR 0xB6, CHR 0xE4, CHR 0xBB, CHR 0x96] @
     [CHR 0xE6, CHR 0x96, CHR 0x87, CHR 0xE4, CHR 0xBB, CHR 0xB6] @
     [CHR 0xE3, CHR 0x80, CHR 0x82]"

text \<open>App, line 56: the error shown when the submit handler finds no image, no prompt or no file.\<close>

definition MSG_NEED_INPUT :: string where
  "MSG_NEED_INPUT =
     [CHR 0xE8, CHR 0xAF, CHR 0xB7, CHR 0xE4, CHR 0xB8, CHR 0x8A] @
     [CHR 0xE4, CHR 0xBC, CHR 0xA0, CHR 0xE4, CHR 0xB8, CHR 0x80] @
     [CHR 0xE5, CHR 0xBC, CHR 0xA0, CHR 0xE5, CHR 0x9B, CHR 0xBE] @
     [CHR 0xE7, CHR 0x89, CHR 0x87, CHR 0xE5, CHR 0xB9, CHR 0xB6] @
     [CHR 0xE8, CHR 0xBE, CHR 0x93, CHR 0xE5, CHR 0x85, CHR 0xA5] @
     [CHR 0xE6, CHR 0x8F, CHR 0x90, CHR 0xE7, CHR 0xA4, CHR 0xBA] @
     [CHR 0xE3, CHR 0x80, CHR 0x82]"

text \<open>App, line 70: the message used when the caught value is not an Error.\<close>

definition MSG_UNKNOWN :: string where
  "MSG_UNKNOWN =
     [CHR 0xE5, CHR 0x8F, CHR 0x91, CHR 0xE7, CHR 0x94, CHR 0x9F] @
     [CHR 0xE6, CHR 0x9C, CHR 0xAA, CHR 0xE7, CHR 0x9F, CHR 0xA5] @
     [CHR 0xE9, CHR 0x94, CHR 0x99, CHR 0xE8, CHR 0xAF, CHR 0xAF] @
     [CHR 0xE3, CHR 0x80, CHR 0x82]"

text \<open>App, line 71: the text put before the message of a failed edit call.\<close>

definition MSG_GENERATE_PREFIX :: string where
  "MSG_GENERATE_PREFIX =
     [CHR 0xE7, CHR 0x94, CHR 0x9F, CHR 0xE6, CHR 0x88, CHR 0x90] @
     [CHR 0xE5, CHR 0x9B, CHR 0xBE, CHR 0xE5, CHR 0x83, CHR 0x8F] @
     [CHR 0xE5, CHR 0xA4, CHR 0xB1, CHR 0xE8, CHR 0xB4, CHR 0xA5] @
     [CHR 0xEF, CHR 0xBC, CHR 0x9A] @
     '' ''"

section \<open>The edit client (services/geminiService.ts)\<close>

datatype modality = IMAGE

text \<open>
  The argument of \<open>ai.models.generateContent\<close>: the model name, the two parts of
  \<open>contents\<close> (the inline data with its media type, then the text) and the response
  modalities. \<open>inlineData_data\<close> is \<open>None\<close> when the caller passed \<open>undefined\<close>.
\<close>

record generateContentParams =
  model :: string
  inlineData_data :: "string option"
  inlineData_mimeType :: string
  text_part :: string
  responseModalities :: "modality list"

record blob =
  data :: string

record part =
  inlineData :: "blob option"
  part_text :: "string option"

text \<open>
  What the remote call gives back. \<open>Parts ps\<close> is a response whose
  \<open>candidates[0].content.parts\<close> is the list \<open>ps\<close>; \<open>Unreadable m\<close> is a response on
  which reading or iterating \<open>response.candidates[0].content.parts\<close> raises a
  \<open>TypeError\<close> with the engine's message \<open>m\<close> (no candidates, no content, no parts).
\<close>

datatype generateContentResponse = Parts "part list" | Unreadable string

datatype remote_outcome = Resolves generateContentResponse | Rejects thrown

text \<open>Lines 36 to 40: the data of the first part that has inline data.\<close>

fun firstInlineData :: "part list \<Rightarrow> string option" where
  "firstInlineData [] = None"
| "firstInlineData (p # ps) =
     (case inlineData p of Some b \<Rightarrow> Some (data b) | None \<Rightarrow> firstInlineData ps)"

text \<open>Lines 16 to 42: the body of the \<open>try\<close> block, given the outcome of the awaited call.\<close>

definition tryBlock :: "remote_outcome \<Rightarrow> thrown + string" where
  "tryBlock outcome =
     (case outcome of
        Rejects e \<Rightarrow> Inl e
      | Resolves (Unreadable m) \<Rightarrow> Inl (Error m)
      | Resolves (Parts ps) \<Rightarrow>
          (case firstInlineData ps of
             Some d \<Rightarrow> Inr d
           | None \<Rightarrow> Inl (Error MSG_NO_IMAGE)))"

text \<open>Lines 43 to 49: the \<open>catch\<close> block, which always throws a new error.\<close>

definition catchBlock :: "thrown \<Rightarrow> thrown" where
  "catchBlock e =
     (case e of
        Error m \<Rightarrow> Error (MSG_API_PREFIX @ m)
      | NonError \<Rightarrow> Error MSG_UNEXPECTED)"

text \<open>
  \<open>editImageWithPrompt\<close>, given the value of \<open>process.env.API_KEY\<close> and the behaviour of
  the remote call. The result is the list of remote calls made, in order, and what the
  promise settles with: \<open>Inl\<close> the thrown error, \<open>Inr\<close> the returned data.
\<close>

definition editImageWithPrompt ::
  "string option \<Rightarrow> (generateContentParams \<Rightarrow> remote_outcome) \<Rightarrow>
   string option \<Rightarrow> string \<Rightarrow> string \<Rightarrow>
   generateContentParams list \<times> (thrown + string)" where
  "editImageWithPrompt API_KEY generateContent base64ImageData mimeType prompt =
     (if \<not> truthy API_KEY then ([], Inl (Error MSG_NO_API_KEY))
      else
        let request = \<lparr>model = ''gemini-2.5-flash-image'',
                        inlineData_data = base64ImageData,
                        inlineData_mimeType = mimeType,
                        text_part = prompt,
                        responseModalities = [IMAGE]\<rparr>
        in ([request],
            case tryBlock (generateContent request) of
              Inl e \<Rightarrow> Inl (catchBlock e)
            | Inr d \<Rightarrow> Inr d))"

section \<open>The application shell (App)\<close>

record File =
  name :: string
  type :: string
  content :: string

record app_state =
  originalImage :: "string option"
  editedImage :: "string option"
  prompt :: string
  isLoading :: bool
  error :: "string option"
  originalFile :: "File option"
  isDraggingOver :: bool

text \<open>Lines 7 to 13: the initial values of the state hooks.\<close>

definition initial :: app_state where
  "initial = \<lparr>originalImage = None, editedImage = None, prompt = [], isLoading = False,
              error = None, originalFile = None, isDraggingOver = False\<rparr>"

subsection \<open>Loading an image\<close>

text \<open>
  \<open>handleImageUpload\<close> after its \<open>await\<close> (lines 21 to 30), on the state current at that
  moment. \<open>fileToBase64\<close> is imported from a module outside the sources at hand, so its
  outcome for the file is a parameter: \<open>Inr\<close> the data URL, \<open>Inl\<close> the rejection.
\<close>

definition handleImageUpload_resume :: "File \<Rightarrow> thrown + string \<Rightarrow> app_state \<Rightarrow> app_state" where
  "handleImageUpload_resume f decoded s =
     (case decoded of
        Inr base64 \<Rightarrow> s\<lparr>originalImage := Some base64, originalFile := Some f,
                         editedImage := None, error := None\<rparr>
      | Inl err \<Rightarrow> s\<lparr>error := Some MSG_LOAD_FAILED\<rparr>)"

text \<open>Lines 16 to 32, with the decoding settling before any other event.\<close>

definition handleImageUpload ::
  "(File \<Rightarrow> thrown + string) \<Rightarrow> File option \<Rightarrow> app_state \<Rightarrow> app_state" where
  "handleImageUpload fileToBase64 fo s =
     (case fo of
        None \<Rightarrow> s
      | Some f \<Rightarrow> handleImageUpload_resume f (fileToBase64 f) s)"

text \<open>\<open>files?.[0] || null\<close>.\<close>

definition firstFile :: "File list \<Rightarrow> File option" where
  "firstFile files = (case files of [] \<Rightarrow> None | f # _ \<Rightarrow> Some f)"

text \<open>\<open>file.type.startsWith('image/')\<close>.\<close>

definition isImageType :: "File \<Rightarrow> bool" where
  "isImageType f = (take 6 (type f) = ''image/'')"

text \<open>The file that each entry path hands to \<open>handleImageUpload\<close>, if any.\<close>

definition handleFileChange_file :: "File list \<Rightarrow> File option" where
  "handleFileChange_file files = firstFile files"

definition handlePaste_file :: "File list \<Rightarrow> File option" where
  "handlePaste_file files =
     (case firstFile files of
        Some f \<Rightarrow> (if isImageType f then Some f else None)
      | None \<Rightarrow> None)"

definition handleDrop_file :: "app_state \<Rightarrow> File list \<Rightarrow> File option" where
  "handleDrop_file s files =
     (if truthy (originalImage s) then None
      else case files of
             [] \<Rightarrow> None
           | f # _ \<Rightarrow> (if isImageType f then Some f else None))"

text \<open>Lines 34 to 37.\<close>

definition handleFileChange ::
  "(File \<Rightarrow> thrown + string) \<Rightarrow> File list \<Rightarrow> app_state \<Rightarrow> app_state" where
  "handleFileChange fileToBase64 files s =
     handleImageUpload fileToBase64 (handleFileChange_file files) s"

text \<open>Lines 40 to 45; a paste that carries no image file calls nothing.\<close>

definition handlePaste ::
  "(File \<Rightarrow> thrown + string) \<Rightarrow> File list \<Rightarrow> app_state \<Rightarrow> app_state" where
  "handlePaste fileToBase64 files s =
     handleImageUpload fileToBase64 (handlePaste_file files) s"

text \<open>Lines 121 to 135.\<close>

definition handleDrop ::
  "(File \<Rightarrow> thrown + string) \<Rightarrow> File list \<Rightarrow> app_state \<Rightarrow> app_state" where
  "handleDrop fileToBase64 files s =
     handleImageUpload fileToBase64 (handleDrop_file s files) (s\<lparr>isDraggingOver := False\<rparr>)"

text \<open>Lines 107 to 119.\<close>

definition handleDragOver :: "app_state \<Rightarrow> app_state" where
  "handleDragOver s = (if \<not> truthy (originalImage s) then s\<lparr>isDraggingOver := True\<rparr> else s)"

definition handleDragLeave :: "app_state \<Rightarrow> app_state" where
  "handleDragLeave s = s\<lparr>isDraggingOver := False\<rparr>"

text \<open>Lines 90 to 98; resetting the file input's value is outside the state.\<close>

definition clearImage :: "app_state \<Rightarrow> app_state" where
  "clearImage s = s\<lparr>originalImage := None, originalFile := None,
                    editedImage := None, error := None\<rparr>"

subsection \<open>Submitting\<close>

text \<open>
  \<open>s.split(',')\<close>: the pieces of \<open>s\<close> between its commas. The result is never empty, so
  the last case below is never taken.
\<close>

fun splitComma :: "string \<Rightarrow> string list" where
  "splitComma [] = [[]]"
| "splitComma (c # cs) =
     (if c = CHR '','' then [] # splitComma cs
      else case splitComma cs of
             piece # pieces \<Rightarrow> (c # piece) # pieces
           | [] \<Rightarrow> [[c]])"

text \<open>\<open>xs[1]\<close>, which is \<open>undefined\<close> on an array of fewer than two elements.\<close>

definition index1 :: "'a list \<Rightarrow> 'a option" where
  "index1 xs = (case xs of _ # y # _ \<Rightarrow> Some y | _ \<Rightarrow> None)"

text \<open>The arguments of one call of \<open>editImageWithPrompt\<close>: data, media type, prompt.\<close>

type_synonym edit_call = "string option \<times> string \<times> string"

text \<open>
  \<open>handleGenerateClick\<close> up to its \<open>await\<close> (lines 55 to 67): the state after the
  synchronous part and the call issued, if any. The first branch is the guard
  \<open>!originalImage || !prompt || !originalFile\<close>.
\<close>

definition handleGenerateClick_begin :: "app_state \<Rightarrow> app_state \<times> edit_call option" where
  "handleGenerateClick_begin s =
     (case (originalImage s, originalFile s) of
        (Some img, Some f) \<Rightarrow>
          if img = [] \<or> prompt s = [] then (s\<lparr>error := Some MSG_NEED_INPUT\<rparr>, None)
          else (s\<lparr>isLoading := True, editedImage := None, error := None\<rparr>,
                Some (index1 (splitComma img), type f, prompt s))
      | _ \<Rightarrow> (s\<lparr>error := Some MSG_NEED_INPUT\<rparr>, None))"

text \<open>
  \<open>handleGenerateClick\<close> after its \<open>await\<close> (lines 68 to 75), on the state current at that
  moment; \<open>fileType\<close> is \<open>originalFile.type\<close> as the handler captured it.
\<close>

definition handleGenerateClick_resume :: "string \<Rightarrow> thrown + string \<Rightarrow> app_state \<Rightarrow> app_state" where
  "handleGenerateClick_resume fileType settled s =
     (case settled of
        Inr resultBase64 \<Rightarrow>
          s\<lparr>editedImage := Some (''data:'' @ fileType @ '';base64,'' @ resultBase64)\<rparr>
      | Inl err \<Rightarrow>
          s\<lparr>error := Some (MSG_GENERATE_PREFIX @
                             (case err of Error m \<Rightarrow> m | NonError \<Rightarrow> MSG_UNKNOWN))\<rparr>)
     \<lparr>isLoading := False\<rparr>"

text \<open>
  Lines 54 to 76 with the edit client in place and the call settling before any other
  event: the remote calls made and the state at the end.
\<close>

definition handleGenerateClick ::
  "string option \<Rightarrow> (generateContentParams \<Rightarrow> remote_outcome) \<Rightarrow> app_state \<Rightarrow>
   generateContentParams list \<times> app_state" where
  "handleGenerateClick API_KEY generateContent s =
     (case handleGenerateClick_begin s of
        (s1, None) \<Rightarrow> ([], s1)
      | (s1, Some (base64Data, fileType, p)) \<Rightarrow>
          (case editImageWithPrompt API_KEY generateContent base64Data fileType p of
             (calls, settled) \<Rightarrow> (calls, handleGenerateClick_resume fileType settled s1)))"

subsection \<open>Controls\<close>

text \<open>Line 203: the \<open>disabled\<close> attribute of the generate button.\<close>

definition generateDisabled :: "app_state \<Rightarrow> bool" where
  "generateDisabled s = (\<not> truthy (originalImage s) \<or> prompt s = [] \<or> isLoading s)"

text \<open>Line 199: the \<open>disabled\<close> attribute of the prompt input.\<close>

definition promptDisabled :: "app_state \<Rightarrow> bool" where
  "promptDisabled s = (\<not> truthy (originalImage s) \<or> isLoading s)"

text \<open>Line 212: the \<open>disabled\<close> attribute of the download button.\<close>

definition downloadDisabled :: "app_state \<Rightarrow> bool" where
  "downloadDisabled s = (\<not> truthy (editedImage s) \<or> isLoading s)"

text \<open>Line 238: the clear button is rendered when \<open>onClear && imageSrc\<close>.\<close>

definition clearShown :: "app_state \<Rightarrow> bool" where
  "clearShown s = truthy (originalImage s)"

text \<open>Line 101: whether \<open>handleKeyDown\<close> calls \<open>handleGenerateClick\<close>.\<close>

definition handleKeyDown_submits :: "string \<Rightarrow> app_state \<Rightarrow> bool" where
  "handleKeyDown_submits key s =
     (key = ''Enter'' \<and> truthy (originalImage s) \<and> prompt s \<noteq> [] \<and> \<not> isLoading s)"

subsection \<open>Downloading\<close>

text \<open>The character class \<open>[\w\d_-]\<close>; the flag \<open>i\<close> adds nothing to it.\<close>

definition extChar :: "char \<Rightarrow> bool" where
  "extChar c =
     (c \<in> set ''abcdefghijklmnopqrstuvwxyzABCDEFGHIJKLMNOPQRSTUVWXYZ0123456789_-'')"

text \<open>Whether \<open>\.[\w\d_-]+$\<close> matches from the start of the given rest of the name.\<close>

definition matchesHere :: "string \<Rightarrow> bool" where
  "matchesHere s =
     (case s of
        [] \<Rightarrow> False
      | c # rest \<Rightarrow> c = CHR ''.'' \<and> rest \<noteq> [] \<and> list_all extChar rest)"

text \<open>
  \<open>name.replace(/(\.[\w\d_-]+)$/i, '_edited$1')\<close>: the leftmost match is replaced by
  \<open>_edited\<close> followed by the matched text; without a match the name is returned as it is.
\<close>

fun replaceExtension :: "string \<Rightarrow> string" where
  "replaceExtension [] = []"
| "replaceExtension (c # cs) =
     (if matchesHere (c # cs) then ''_edited'' @ c # cs else c # replaceExtension cs)"

text \<open>Line 83: \<open>originalFile?.name.replace(...) || 'edited-image.png'\<close>.\<close>

definition fileName :: "File option \<Rightarrow> string" where
  "fileName fo =
     (case fo of
        None \<Rightarrow> ''edited-image.png''
      | Some f \<Rightarrow>
          (if replaceExtension (name f) = [] then ''edited-image.png''
           else replaceExtension (name f)))"

text \<open>
  Lines 78 to 88: the \<open>href\<close> and \<open>download\<close> of the link that is clicked, or \<open>None\<close> when
  the handler returns at once.
\<close>

definition handleDownloadClick :: "app_state \<Rightarrow> (string \<times> string) option" where
  "handleDownloadClick s =
     (case editedImage s of
        None \<Rightarrow> None
      | Some href \<Rightarrow> (if href = [] then None else Some (href, fileName (originalFile s))))"

subsection \<open>The shell as an event-driven machine\<close>

text \<open>
  Between the start of an asynchronous handler and the moment its promise settles, other
  events run. A session is the state together with the files being decoded and the edit
  calls that have not settled yet.
\<close>

record session =
  shell :: app_state
  decoding :: "File list"
  outstanding :: "edit_call list"

datatype event =
    FileChange "File list"
  | Paste "File list"
  | Drop "File list"
  | DragOver
  | DragLeave
  | DecodeSettles nat "thrown + string"
  | ChangePrompt string
  | ClickGenerate
  | KeyDown string
  | EditSettles nat "thrown + string"
  | ClickClear
  | ClickDownload

definition start :: session where
  "start = \<lparr>shell = initial, decoding = [], outstanding = []\<rparr>"

definition remove_nth :: "nat \<Rightarrow> 'a list \<Rightarrow> 'a list" where
  "remove_nth i xs = take i xs @ drop (Suc i) xs"

definition upload :: "File option \<Rightarrow> session \<Rightarrow> session" where
  "upload fo c = (case fo of None \<Rightarrow> c | Some f \<Rightarrow> c\<lparr>decoding := decoding c @ [f]\<rparr>)"

definition submit :: "session \<Rightarrow> session" where
  "submit c =
     (case handleGenerateClick_begin (shell c) of
        (s1, None) \<Rightarrow> c\<lparr>shell := s1\<rparr>
      | (s1, Some call) \<Rightarrow> c\<lparr>shell := s1, outstanding := outstanding c @ [call]\<rparr>)"

text \<open>
  One event. A disabled control delivers no event and a button that is not rendered cannot
  be clicked, so such an event leaves the session as it is.
\<close>

fun step :: "event \<Rightarrow> session \<Rightarrow> session" where
  "step (FileChange files) c = upload (handleFileChange_file files) c"
| "step (Paste files) c = upload (handlePaste_file files) c"
| "step (Drop files) c =
     upload (handleDrop_file (shell c) files) (c\<lparr>shell := (shell c)\<lparr>isDraggingOver := False\<rparr>\<rparr>)"
| "step DragOver c = c\<lparr>shell := handleDragOver (shell c)\<rparr>"
| "step DragLeave c = c\<lparr>shell := handleDragLeave (shell c)\<rparr>"
| "step (DecodeSettles i decoded) c =
     (if i < length (decoding c)
      then c\<lparr>shell := handleImageUpload_resume (decoding c ! i) decoded (shell c),
             decoding := remove_nth i (decoding c)\<rparr>
      else c)"
| "step (ChangePrompt p) c =
     (if promptDisabled (shell c) then c else c\<lparr>shell := (shell c)\<lparr>prompt := p\<rparr>\<rparr>)"
| "step ClickGenerate c = (if generateDisabled (shell c) then c else submit c)"
| "step (KeyDown key) c =
     (if promptDisabled (shell c) then c
      else if handleKeyDown_submits key (shell c) then submit c else c)"
| "step (EditSettles i settled) c =
     (if i < length (outstanding c)
      then c\<lparr>shell := handleGenerateClick_resume (fst (snd (outstanding c ! i))) settled (shell c),
             outstanding := remove_nth i (outstanding c)\<rparr>
      else c)"
| "step ClickClear c = (if clearShown (shell c) then c\<lparr>shell := clearImage (shell c)\<rparr> else c)"
| "step ClickDownload c = c"

fun run :: "event list \<Rightarrow> session \<Rightarrow> session" where
  "run [] c = c"
| "run (e # es) c = run es (step e c)"

text \<open>
  The relation between the loading flag and the calls that have not settled: one call
  while the flag is set, none otherwise.
\<close>

definition one_outstanding :: "session \<Rightarrow> bool" where
  "one_outstanding c =
     (if isLoading (shell c) then length (outstanding c) = 1 else outstanding c = [])"

subsection \<open>Sample inputs\<close>

text \<open>
  The file, the data URL and the prompt of the example \<open>cat.png\<close>, \<open>add a hat\<close>: the state
  once the image is loaded and the prompt typed, and the state after a first successful
  edit that returned \<open>DDDD\<close>.
\<close>

definition cat_png :: File where
  "cat_png = \<lparr>name = ''cat.png'', type = ''image/png'', content = ''...''\<rparr>"

definition cat_ready :: app_state where
  "cat_ready = \<lparr>originalImage = Some ''data:image/png;base64,AAAA'', editedImage = None,
                prompt = ''add a hat'', isLoading = False, error = None,
                originalFile = Some cat_png, isDraggingOver = False\<rparr>"

definition cat_edited :: app_state where
  "cat_edited = cat_ready\<lparr>editedImage := Some ''data:image/png;base64,DDDD''\<rparr>"

text \<open>A remote call that answers with one image part, one that answers with text only.\<close>

definition answers_image :: "generateContentParams \<Rightarrow> remote_outcome" where
  "answers_image request =
     Resolves (Parts [\<lparr>inlineData = Some \<lparr>data = ''DDDD''\<rparr>, part_text = None\<rparr>])"

definition answers_text :: "generateContentParams \<Rightarrow> remote_outcome" where
  "answers_text request =
     Resolves (Parts [\<lparr>inlineData = None, part_text = Some ''I cannot edit this image.''\<rparr>])"

definition fails_quota :: "generateContentParams \<Rightarrow> remote_outcome" where
  "fails_quota request = Rejects (Error ''quota exceeded'')"

section \<open>Facts about the handlers\<close>

subsection \<open>Splitting the data URL\<close>

lemma splitComma_prefix:
  "CHR '','' \<notin> set pre \<Longrightarrow> splitComma (pre @ CHR '','' # rest) = pre # splitComma rest"
  by (induction pre) auto

lemma splitComma_single: "CHR '','' \<notin> set s \<Longrightarrow> splitComma s = [s]"
  by (induction s) auto

lemma index1_payload:
  assumes "CHR '','' \<notin> set pre" and "CHR '','' \<notin> set payload"
  shows "index1 (splitComma (pre @ CHR '','' # payload)) = Some payload"
  using assms by (simp add: splitComma_prefix splitComma_single index1_def)

lemma cat_ready_payload: "index1 (splitComma ''data:image/png;base64,AAAA'') = Some ''AAAA''"
  by (simp add: index1_def)

subsection \<open>The two branches of the submit handler\<close>

lemma begin_accepts:
  assumes "originalImage s = Some img" and "img \<noteq> []" and "prompt s \<noteq> []"
    and "originalFile s = Some f"
  shows "handleGenerateClick_begin s =
           (s\<lparr>isLoading := True, editedImage := None, error := None\<rparr>,
            Some (index1 (splitComma img), type f, prompt s))"
  using assms by (simp add: handleGenerateClick_begin_def)

lemma begin_rejects:
  assumes "\<not> truthy (originalImage s) \<or> originalFile s = None \<or> prompt s = []"
  shows "handleGenerateClick_begin s = (s\<lparr>error := Some MSG_NEED_INPUT\<rparr>, None)"
  using assms by (auto simp: handleGenerateClick_begin_def truthy_def split: option.splits)

lemma begin_cases:
  "handleGenerateClick_begin s = (s\<lparr>error := Some MSG_NEED_INPUT\<rparr>, None) \<or>
   (\<exists>call. handleGenerateClick_begin s =
      (s\<lparr>isLoading := True, editedImage := None, error := None\<rparr>, Some call))"
  by (simp add: handleGenerateClick_begin_def split: option.splits)

lemma handleGenerateClick_accepted:
  assumes "originalImage s = Some img" and "img \<noteq> []" and "prompt s \<noteq> []"
    and "originalFile s = Some f"
  shows "handleGenerateClick API_KEY generateContent s =
           (fst (editImageWithPrompt API_KEY generateContent (index1 (splitComma img)) (type f) (prompt s)),
            handleGenerateClick_resume (type f)
              (snd (editImageWithPrompt API_KEY generateContent (index1 (splitComma img)) (type f) (prompt s)))
              (s\<lparr>isLoading := True, editedImage := None, error := None\<rparr>))"
  by (simp add: handleGenerateClick_def begin_accepts [OF assms] split: prod.splits)

lemma resume_not_loading: "\<not> isLoading (handleGenerateClick_resume t r s)"
  by (simp add: handleGenerateClick_resume_def split: sum.splits)

lemma MSG_GENERATE_PREFIX_nonempty: "MSG_GENERATE_PREFIX \<noteq> []"
  by (simp add: MSG_GENERATE_PREFIX_def)

subsection \<open>The sample calls\<close>

lemma cat_ready_succeeds:
  "snd (editImageWithPrompt (Some ''key'') answers_image (Some ''AAAA'') ''image/png'' ''add a hat'')
     = Inr ''DDDD''"
  by (simp add: editImageWithPrompt_def truthy_def answers_image_def tryBlock_def)

lemma cat_edited_fails:
  "snd (editImageWithPrompt (Some ''key'') fails_quota (Some ''AAAA'') ''image/png'' ''add a hat'')
     = Inl (Error (MSG_API_PREFIX @ ''quota exceeded''))"
  by (simp add: editImageWithPrompt_def truthy_def fails_quota_def tryBlock_def catchBlock_def)

subsection \<open>Loading\<close>

lemma upload_loaded:
  "handleImageUpload_resume f (Inr base64) s =
     s\<lparr>originalImage := Some base64, originalFile := Some f, editedImage := None, error := None\<rparr>"
  by (simp add: handleImageUpload_resume_def)

lemma upload_resume_loading:
  "isLoading (handleImageUpload_resume f d s) = isLoading s"
  by (simp add: handleImageUpload_resume_def split: sum.splits)

lemma upload_shell: "shell (upload fo c) = shell c"
  by (simp add: upload_def split: option.splits)

lemma upload_outstanding: "outstanding (upload fo c) = outstanding c"
  by (simp add: upload_def split: option.splits)

subsection \<open>The extension pattern\<close>

lemma dot_not_extChar: "\<not> extChar (CHR ''.'')"
  by (simp add: extChar_def)

lemma no_match_before_dot:
  "\<not> matchesHere (c # base @ CHR ''.'' # ext)"
  by (simp add: matchesHere_def dot_not_extChar)

lemma replaceExtension_match:
  assumes "ext \<noteq> []" and "list_all extChar ext"
  shows "replaceExtension (base @ CHR ''.'' # ext) = base @ ''_edited'' @ CHR ''.'' # ext"
proof (induction base)
  case Nil
  from assms show ?case by (simp add: matchesHere_def)
next
  case (Cons c base)
  then show ?case by (simp add: no_match_before_dot)
qed

lemma replaceExtension_no_match:
  assumes "\<And>base ext. n = base @ CHR ''.'' # ext \<Longrightarrow> ext = [] \<or> \<not> list_all extChar ext"
  shows "replaceExtension n = n"
  using assms
proof (induction n)
  case Nil
  show ?case by simp
next
  case (Cons c cs)
  have here: "\<not> matchesHere (c # cs)"
    using Cons.prems [of "[]" cs] by (auto simp: matchesHere_def)
  have "replaceExtension cs = cs"
  proof (rule Cons.IH)
    fix base ext
    assume "cs = base @ CHR ''.'' # ext"
    then have "c # cs = (c # base) @ CHR ''.'' # ext" by simp
    then show "ext = [] \<or> \<not> list_all extChar ext" by (rule Cons.prems)
  qed
  with here show ?case by simp
qed

subsection \<open>One call at a time\<close>

lemma remove_nth_single: "length xs = 1 \<Longrightarrow> i < length xs \<Longrightarrow> remove_nth i xs = []"
  by (cases xs) (simp_all add: remove_nth_def)

lemma submit_idle:
  assumes "\<not> isLoading (shell c)" and "outstanding c = []"
  shows "one_outstanding (submit c)"
  using assms begin_cases [of "shell c"]
  by (auto simp: submit_def one_outstanding_def)

lemma step_one_outstanding:
  assumes "one_outstanding c"
  shows "one_outstanding (step e c)"
proof (cases e)
  case ClickGenerate
  show ?thesis
  proof (cases "generateDisabled (shell c)")
    case True
    with assms ClickGenerate show ?thesis by simp
  next
    case False
    then have idle: "\<not> isLoading (shell c)" by (simp add: generateDisabled_def)
    with assms have "outstanding c = []" by (simp add: one_outstanding_def)
    with idle False ClickGenerate show ?thesis by (simp add: submit_idle)
  qed
next
  case (KeyDown key)
  show ?thesis
  proof (cases "\<not> promptDisabled (shell c) \<and> handleKeyDown_submits key (shell c)")
    case True
    then have idle: "\<not> isLoading (shell c)" by (simp add: handleKeyDown_submits_def)
    with assms have "outstanding c = []" by (simp add: one_outstanding_def)
    with idle True KeyDown show ?thesis by (simp add: submit_idle)
  next
    case False
    with assms KeyDown show ?thesis by auto
  qed
next
  case (EditSettles i settled)
  show ?thesis
  proof (cases "i < length (outstanding c)")
    case True
    with assms have "length (outstanding c) = 1"
      by (auto simp: one_outstanding_def split: if_splits)
    with True have "remove_nth i (outstanding c) = []" by (simp add: remove_nth_single)
    with True EditSettles show ?thesis
      by (simp add: one_outstanding_def resume_not_loading)
  next
    case False
    with assms EditSettles show ?thesis by simp
  qed
next
  case (DecodeSettles i decoded)
  with assms show ?thesis
    by (simp add: one_outstanding_def upload_resume_loading)
qed (use assms in \<open>simp_all add: upload_shell upload_outstanding one_outstanding_def handleDragOver_def
       handleDragLeave_def clearImage_def\<close>)

lemma run_one_outstanding: "one_outstanding c \<Longrightarrow> one_outstanding (run es c)"
  by (induction es arbitrary: c) (simp_all add: step_one_outstanding)

lemma start_one_outstanding: "one_outstanding start"
  by (simp add: one_outstanding_def start_def initial_def)

lemma cat_session:
  "run [FileChange [cat_png], DecodeSettles 0 (Inr ''data:image/png;base64,AAAA''),
        ChangePrompt ''add a hat'', ClickGenerate] start =
   \<lparr>shell = cat_ready\<lparr>isLoading := True\<rparr>, decoding = [],
     outstanding = [(Some ''AAAA'', ''image/png'', ''add a hat'')]\<rparr>"
  by (simp add: start_def initial_def upload_def handleFileChange_file_def firstFile_def
      handleImageUpload_resume_def remove_nth_def promptDisabled_def truthy_def
      generateDisabled_def submit_def handleGenerateClick_begin_def index1_def
      cat_ready_def cat_png_def)

section \<open>The edit client\<close>

text \<open>
  Claim C4. Whatever the arguments and whatever the remote service would answer, when
  \<open>API_KEY\<close> is absent (or empty, which the test \<open>!process.env.API_KEY\<close> treats alike)
  the client fails with the missing-credential error, whose message is not empty, and
  makes no remote call.
\<close>

theorem missing_credential_fails_without_remote_call:
  assumes "\<not> truthy API_KEY"
  shows "editImageWithPrompt API_KEY generateContent base64ImageData mediaType instruction =
           ([], Inl (Error MSG_NO_API_KEY)) \<and> MSG_NO_API_KEY \<noteq> []"
  using assms by (simp add: editImageWithPrompt_def MSG_NO_API_KEY_def)

text \<open>
  With no \<open>API_KEY\<close> and a remote service that would answer with an image, the client
  still fails and the list of remote calls is empty.
\<close>

theorem missing_credential_fails_without_remote_call_witness:
  "\<not> truthy None \<and>
   editImageWithPrompt None answers_image (Some ''AAAA'') ''image/png'' ''add a hat'' =
     ([], Inl (Error MSG_NO_API_KEY))"
proof -
  have h: "\<not> truthy None" by (simp add: truthy_def)
  show ?thesis
    using h missing_credential_fails_without_remote_call [OF h, of answers_image "Some ''AAAA''"
      "''image/png''" "''add a hat''"] by simp
qed

text \<open>
  Claim C3. The claim asks for an error of its own kind when the response carries no image.
  The client throws that error inside its \<open>try\<close> block (line 42), its own \<open>catch\<close> block
  takes it and throws a new error with the text of line 46 in front: on a response that
  holds only a text part, the caller receives the very error it receives when the remote
  call itself is rejected with the same message, and not the error of line 42.
\<close>

theorem no_image_error_is_wrapped_like_a_remote_failure:
  "snd (editImageWithPrompt (Some ''key'') answers_text (Some ''AAAA'') ''image/png'' ''add a hat'')
     = Inl (Error (MSG_API_PREFIX @ MSG_NO_IMAGE)) \<and>
   snd (editImageWithPrompt (Some ''key'') (\<lambda>request. Rejects (Error MSG_NO_IMAGE))
          (Some ''AAAA'') ''image/png'' ''add a hat'')
     = Inl (Error (MSG_API_PREFIX @ MSG_NO_IMAGE)) \<and>
   Error (MSG_API_PREFIX @ MSG_NO_IMAGE) \<noteq> Error MSG_NO_IMAGE"
  by (simp add: editImageWithPrompt_def truthy_def answers_text_def tryBlock_def catchBlock_def
      MSG_API_PREFIX_def)

section \<open>Submitting\<close>

text \<open>
  Claim C1. When the submit handler passes its guard and the edit client returns the data
  \<open>D\<close>, the edited image is \<open>data:\<close>, the media type of the loaded file, \<open>;base64,\<close> and
  \<open>D\<close>. This holds when the call settles at once, and also for any state the shell is in
  when the call settles later.
\<close>

theorem edited_image_is_data_url:
  assumes "originalImage s = Some img" and "img \<noteq> []" and "prompt s \<noteq> []"
    and "originalFile s = Some f"
    and "snd (editImageWithPrompt API_KEY generateContent
                (index1 (splitComma img)) (type f) (prompt s)) = Inr D"
  shows "editedImage (snd (handleGenerateClick API_KEY generateContent s)) =
           Some (''data:'' @ type f @ '';base64,'' @ D) \<and>
         (\<forall>s'. editedImage (handleGenerateClick_resume (type f) (Inr D) s') =
           Some (''data:'' @ type f @ '';base64,'' @ D))"
  using assms(5)
  by (simp add: handleGenerateClick_accepted [OF assms(1-4)] handleGenerateClick_resume_def)

text \<open>
  The example of the specification: \<open>cat.png\<close>, a PNG file, and the returned data
  \<open>DDDD\<close> give \<open>data:image/png;base64,DDDD\<close>.
\<close>

theorem edited_image_is_data_url_witness:
  "editedImage (snd (handleGenerateClick (Some ''key'') answers_image cat_ready)) =
     Some ''data:image/png;base64,DDDD''"
proof -
  have h1: "originalImage cat_ready = Some ''data:image/png;base64,AAAA''"
    and h3: "prompt cat_ready \<noteq> []"
    and h4: "originalFile cat_ready = Some cat_png"
    by (simp_all add: cat_ready_def)
  have h2: "''data:image/png;base64,AAAA'' \<noteq> []" by simp
  have h5: "snd (editImageWithPrompt (Some ''key'') answers_image
                (index1 (splitComma ''data:image/png;base64,AAAA'')) (type cat_png)
                (prompt cat_ready)) = Inr ''DDDD''"
    by (simp add: index1_def cat_ready_succeeds cat_png_def cat_ready_def)
  show ?thesis
    using edited_image_is_data_url [OF h1 h2 h3 h4 h5] by (simp add: cat_png_def)
qed

text \<open>
  Claim C2, as amended. When the submit handler passes its guard and the edit client
  fails, the error becomes the text of line 71 followed by the failure's message, which is
  not empty, and the edited image is empty afterwards, whatever it was before: the handler
  clears it (line 61) before it makes the call. The failure itself leaves the edited image
  as it finds it.
\<close>

theorem failed_edit_sets_error_and_leaves_no_edited_image:
  assumes "originalImage s = Some img" and "img \<noteq> []" and "prompt s \<noteq> []"
    and "originalFile s = Some f"
    and "snd (editImageWithPrompt API_KEY generateContent
                (index1 (splitComma img)) (type f) (prompt s)) = Inl e"
  shows "error (snd (handleGenerateClick API_KEY generateContent s)) =
           Some (MSG_GENERATE_PREFIX @ (case e of Error m \<Rightarrow> m | NonError \<Rightarrow> MSG_UNKNOWN)) \<and>
         truthy (error (snd (handleGenerateClick API_KEY generateContent s))) \<and>
         editedImage (snd (handleGenerateClick API_KEY generateContent s)) = None \<and>
         (\<forall>s'. editedImage (handleGenerateClick_resume (type f) (Inl e) s') = editedImage s')"
  using assms(5)
  by (simp add: handleGenerateClick_accepted [OF assms(1-4)] handleGenerateClick_resume_def
      truthy_def MSG_GENERATE_PREFIX_nonempty)

text \<open>
  A second submission after a successful edit, failing on an exhausted quota: the error is
  set and the first result is gone.
\<close>

theorem failed_edit_sets_error_and_leaves_no_edited_image_witness:
  "editedImage cat_edited \<noteq> None \<and>
   error (snd (handleGenerateClick (Some ''key'') fails_quota cat_edited)) =
     Some (MSG_GENERATE_PREFIX @ MSG_API_PREFIX @ ''quota exceeded'') \<and>
   editedImage (snd (handleGenerateClick (Some ''key'') fails_quota cat_edited)) = None"
proof -
  have h1: "originalImage cat_edited = Some ''data:image/png;base64,AAAA''"
    and h3: "prompt cat_edited \<noteq> []"
    and h4: "originalFile cat_edited = Some cat_png"
    by (simp_all add: cat_edited_def cat_ready_def)
  have h2: "''data:image/png;base64,AAAA'' \<noteq> []" by simp
  have h5: "snd (editImageWithPrompt (Some ''key'') fails_quota
                (index1 (splitComma ''data:image/png;base64,AAAA'')) (type cat_png)
                (prompt cat_edited)) = Inl (Error (MSG_API_PREFIX @ ''quota exceeded''))"
    by (simp add: index1_def cat_edited_fails cat_png_def cat_edited_def cat_ready_def)
  show ?thesis
    using failed_edit_sets_error_and_leaves_no_edited_image [OF h1 h2 h3 h4 h5]
    by (simp add: cat_edited_def)
qed

text \<open>
  The claim as worded would keep the earlier result. Here the state holds the result of
  a first edit, the second call fails, and the edited image is empty at the end.
\<close>

theorem failed_edit_keeps_edited_image_counterexample:
  "editedImage cat_edited = Some ''data:image/png;base64,DDDD'' \<and>
   editedImage (snd (handleGenerateClick (Some ''key'') fails_quota cat_edited)) = None"
  by (simp add: cat_edited_def cat_ready_def handleGenerateClick_def handleGenerateClick_begin_def
      editImageWithPrompt_def truthy_def fails_quota_def tryBlock_def catchBlock_def
      handleGenerateClick_resume_def split: prod.splits)

text \<open>
  Claim C5. With a data URL loaded (a prefix and a payload, neither holding a comma, around
  one comma), a non-empty prompt and the file held, one submission issues exactly one call
  of the edit client, carrying the payload, the file's media type and the prompt. The
  client in turn makes exactly one remote call with these three values when the credential
  is present, whatever the remote service answers, and none otherwise: a failure is never
  followed by a second attempt.
\<close>

theorem submission_issues_one_request:
  assumes "originalImage s = Some (pre @ CHR '','' # payload)"
    and "CHR '','' \<notin> set pre" and "CHR '','' \<notin> set payload"
    and "prompt s \<noteq> []" and "originalFile s = Some f"
  shows "snd (handleGenerateClick_begin s) = Some (Some payload, type f, prompt s) \<and>
         fst (handleGenerateClick API_KEY generateContent s) =
           (if truthy API_KEY
            then [\<lparr>model = ''gemini-2.5-flash-image'', inlineData_data = Some payload,
                   inlineData_mimeType = type f, text_part = prompt s,
                   responseModalities = [IMAGE]\<rparr>]
            else [])"
proof -
  have nonempty: "pre @ CHR '','' # payload \<noteq> []" by simp
  note accepted = assms(1) nonempty assms(4) assms(5)
  have payload: "index1 (splitComma (pre @ CHR '','' # payload)) = Some payload"
    by (rule index1_payload [OF assms(2) assms(3)])
  show ?thesis
    by (simp add: begin_accepts [OF accepted] handleGenerateClick_accepted [OF accepted]
        payload editImageWithPrompt_def Let_def)
qed

text \<open>
  For \<open>cat.png\<close> and \<open>add a hat\<close>, with a remote service that rejects the call, the
  single request carries \<open>AAAA\<close>, \<open>image/png\<close> and the prompt.
\<close>

theorem submission_issues_one_request_witness:
  "snd (handleGenerateClick_begin cat_ready) = Some (Some ''AAAA'', ''image/png'', ''add a hat'') \<and>
   fst (handleGenerateClick (Some ''key'') fails_quota cat_ready) =
     [\<lparr>model = ''gemini-2.5-flash-image'', inlineData_data = Some ''AAAA'',
       inlineData_mimeType = ''image/png'', text_part = ''add a hat'',
       responseModalities = [IMAGE]\<rparr>]"
proof -
  have h1: "originalImage cat_ready = Some (''data:image/png;base64'' @ CHR '','' # ''AAAA'')"
    and h4: "prompt cat_ready \<noteq> []"
    and h5: "originalFile cat_ready = Some cat_png"
    by (simp_all add: cat_ready_def)
  have h2: "CHR '','' \<notin> set ''data:image/png;base64''" by simp
  have h3: "CHR '','' \<notin> set ''AAAA''" by simp
  show ?thesis
    using submission_issues_one_request [OF h1 h2 h3 h4 h5, of "Some ''key''" fails_quota]
    by (simp add: cat_ready_def cat_png_def truthy_def)
qed

text \<open>
  Claim C10. When no image is loaded, no file is held or the prompt is empty, the submit
  handler issues no call of the edit client, no remote call is made, the error becomes the
  fixed text of line 56, and nothing else in the state changes: in particular the edited
  image and the loading flag stay as they were.
\<close>

theorem rejected_submission_only_sets_error:
  assumes "\<not> truthy (originalImage s) \<or> originalFile s = None \<or> prompt s = []"
  shows "handleGenerateClick_begin s = (s\<lparr>error := Some MSG_NEED_INPUT\<rparr>, None) \<and>
         handleGenerateClick API_KEY generateContent s = ([], s\<lparr>error := Some MSG_NEED_INPUT\<rparr>) \<and>
         error (snd (handleGenerateClick API_KEY generateContent s)) = Some MSG_NEED_INPUT \<and>
         editedImage (snd (handleGenerateClick API_KEY generateContent s)) = editedImage s \<and>
         isLoading (snd (handleGenerateClick API_KEY generateContent s)) = isLoading s"
  by (simp add: handleGenerateClick_def begin_rejects [OF assms])

text \<open>
  With the prompt emptied after a successful edit, the handler only sets the error.
\<close>

theorem rejected_submission_only_sets_error_witness:
  "prompt (cat_edited\<lparr>prompt := []\<rparr>) = [] \<and>
   handleGenerateClick (Some ''key'') answers_image (cat_edited\<lparr>prompt := []\<rparr>) =
     ([], cat_edited\<lparr>prompt := [], error := Some MSG_NEED_INPUT\<rparr>)"
proof -
  have h: "\<not> truthy (originalImage (cat_edited\<lparr>prompt := []\<rparr>)) \<or>
           originalFile (cat_edited\<lparr>prompt := []\<rparr>) = None \<or>
           prompt (cat_edited\<lparr>prompt := []\<rparr>) = []"
    by simp
  show ?thesis
    using rejected_submission_only_sets_error [OF h, of "Some ''key''" answers_image] by simp
qed

section \<open>The controls\<close>

text \<open>
  Claim C6. After any sequence of events from the initial state: when no image is loaded,
  or the prompt is empty, or an edit call has not settled yet, the generate button is
  disabled, a click on it changes nothing and no key pressed in the prompt input submits;
  and at most one edit call is outstanding.
\<close>

theorem submission_disabled_and_single_outstanding:
  "((\<not> truthy (originalImage (shell (run es start))) \<or> prompt (shell (run es start)) = [] \<or>
      outstanding (run es start) \<noteq> [])
     \<longrightarrow> generateDisabled (shell (run es start)) \<and>
         step ClickGenerate (run es start) = run es start \<and>
         (\<forall>key. step (KeyDown key) (run es start) = run es start))
   \<and> length (outstanding (run es start)) \<le> 1"
proof -
  define c where "c = run es start"
  have inv: "one_outstanding c"
    unfolding c_def by (rule run_one_outstanding [OF start_one_outstanding])
  have loading: "outstanding c \<noteq> [] \<Longrightarrow> isLoading (shell c)"
    using inv by (auto simp: one_outstanding_def split: if_splits)
  have len: "length (outstanding c) \<le> 1"
    using inv by (auto simp: one_outstanding_def split: if_splits)
  have dis: "generateDisabled (shell c)"
    if "\<not> truthy (originalImage (shell c)) \<or> prompt (shell c) = [] \<or> outstanding c \<noteq> []"
    using that loading by (auto simp: generateDisabled_def)
  have key: "step (KeyDown k) c = c"
    if "\<not> truthy (originalImage (shell c)) \<or> prompt (shell c) = [] \<or> outstanding c \<noteq> []" for k
    using that loading by (auto simp: promptDisabled_def handleKeyDown_submits_def)
  show ?thesis
    unfolding c_def [symmetric] using dis key len by simp
qed

text \<open>
  After loading \<open>cat.png\<close>, typing the prompt and clicking the button, one call is
  outstanding and the button is disabled.
\<close>

theorem submission_disabled_and_single_outstanding_witness:
  "outstanding (run [FileChange [cat_png], DecodeSettles 0 (Inr ''data:image/png;base64,AAAA''),
        ChangePrompt ''add a hat'', ClickGenerate] start) \<noteq> [] \<and>
   generateDisabled (shell (run [FileChange [cat_png],
        DecodeSettles 0 (Inr ''data:image/png;base64,AAAA''),
        ChangePrompt ''add a hat'', ClickGenerate] start)) \<and>
   length (outstanding (run [FileChange [cat_png],
        DecodeSettles 0 (Inr ''data:image/png;base64,AAAA''),
        ChangePrompt ''add a hat'', ClickGenerate] start)) \<le> 1"
proof -
  have h: "outstanding (run [FileChange [cat_png],
        DecodeSettles 0 (Inr ''data:image/png;base64,AAAA''),
        ChangePrompt ''add a hat'', ClickGenerate] start) \<noteq> []"
    by (simp only: cat_session) simp
  show ?thesis
    using h submission_disabled_and_single_outstanding [of "[FileChange [cat_png],
        DecodeSettles 0 (Inr ''data:image/png;base64,AAAA''),
        ChangePrompt ''add a hat'', ClickGenerate]"]
    by blast
qed

section \<open>Clearing and loading\<close>

text \<open>
  Claim C7. In every state, \<open>clearImage\<close> leaves the source image, the file, the edited
  image and the error empty.
\<close>

theorem clear_empties_source_result_and_error:
  "originalImage (clearImage s) = None \<and> originalFile (clearImage s) = None \<and>
   editedImage (clearImage s) = None \<and> error (clearImage s) = None"
  by (simp add: clearImage_def)

text \<open>
  Claim C8, as amended. A file whose decoding succeeds becomes the source image, and the
  edited image and the error are emptied, when it is the first file chosen in the picker,
  the first file of a paste and of an \<open>image/\<close> type, or the first file of a drop and of
  an \<open>image/\<close> type while no source image is loaded. A drop made while a source image is
  loaded only resets the drag highlight (line 126 returns before the file is read).
\<close>

theorem accepted_image_becomes_source:
  assumes "fileToBase64 f = Inr base64"
  shows "handleFileChange fileToBase64 (f # fs) s =
           s\<lparr>originalImage := Some base64, originalFile := Some f,
             editedImage := None, error := None\<rparr> \<and>
         (isImageType f \<longrightarrow>
            handlePaste fileToBase64 (f # fs) s =
              s\<lparr>originalImage := Some base64, originalFile := Some f,
                editedImage := None, error := None\<rparr>) \<and>
         (isImageType f \<and> \<not> truthy (originalImage s) \<longrightarrow>
            handleDrop fileToBase64 (f # fs) s =
              s\<lparr>isDraggingOver := False, originalImage := Some base64, originalFile := Some f,
                editedImage := None, error := None\<rparr>) \<and>
         (truthy (originalImage s) \<longrightarrow>
            handleDrop fileToBase64 (f # fs) s = s\<lparr>isDraggingOver := False\<rparr>)"
  using assms
  by (simp add: handleFileChange_def handlePaste_def handleDrop_def handleFileChange_file_def
      handlePaste_file_def handleDrop_file_def firstFile_def handleImageUpload_def upload_loaded)

text \<open>
  A paste of \<open>dog.png\<close> over the edited cat replaces the source and empties the result;
  a drop of it on the same state changes nothing but the highlight; a drop on a state
  without source image loads it and empties the result and the error.
\<close>

theorem accepted_image_becomes_source_witness:
  "handlePaste (\<lambda>f. Inr ''data:image/png;base64,BBBB'')
     [\<lparr>name = ''dog.png'', type = ''image/png'', content = ''...''\<rparr>] cat_edited =
     cat_edited\<lparr>originalImage := Some ''data:image/png;base64,BBBB'',
       originalFile := Some \<lparr>name = ''dog.png'', type = ''image/png'', content = ''...''\<rparr>,
       editedImage := None, error := None\<rparr> \<and>
   handleDrop (\<lambda>f. Inr ''data:image/png;base64,BBBB'')
     [\<lparr>name = ''dog.png'', type = ''image/png'', content = ''...''\<rparr>] cat_edited =
     cat_edited\<lparr>isDraggingOver := False\<rparr> \<and>
   handleDrop (\<lambda>f. Inr ''data:image/png;base64,BBBB'')
     [\<lparr>name = ''dog.png'', type = ''image/png'', content = ''...''\<rparr>]
     (cat_edited\<lparr>originalImage := None, error := Some ''old''\<rparr>) =
     cat_edited\<lparr>isDraggingOver := False,
       originalImage := Some ''data:image/png;base64,BBBB'',
       originalFile := Some \<lparr>name = ''dog.png'', type = ''image/png'', content = ''...''\<rparr>,
       editedImage := None, error := None\<rparr>"
proof -
  let ?dog = "\<lparr>name = ''dog.png'', type = ''image/png'', content = ''...''\<rparr>"
  let ?decode = "\<lambda>f::File. Inr ''data:image/png;base64,BBBB'' :: thrown + string"
  have decoded: "?decode ?dog = Inr ''data:image/png;base64,BBBB''" by simp
  have image: "isImageType ?dog" by (simp add: isImageType_def)
  have loaded: "truthy (originalImage cat_edited)"
    by (simp add: truthy_def cat_edited_def cat_ready_def)
  have empty: "\<not> truthy (originalImage (cat_edited\<lparr>originalImage := None, error := Some ''old''\<rparr>))"
    by (simp add: truthy_def)
  show ?thesis
    using accepted_image_becomes_source [where fs = "[]" and s = cat_edited, OF decoded]
      accepted_image_becomes_source [where fs = "[]" and
        s = "cat_edited\<lparr>originalImage := None, error := Some ''old''\<rparr>", OF decoded]
      image loaded empty
    by simp
qed

text \<open>
  The claim as worded covers every drop. Here \<open>dog.png\<close> is dropped while \<open>cat.png\<close>
  is loaded and edited: the source is still the cat and the edited image is still there.
\<close>

theorem drop_on_loaded_image_counterexample:
  "originalImage (handleDrop (\<lambda>f. Inr ''data:image/png;base64,BBBB'')
      [\<lparr>name = ''dog.png'', type = ''image/png'', content = ''...''\<rparr>] cat_edited)
     = Some ''data:image/png;base64,AAAA'' \<and>
   editedImage (handleDrop (\<lambda>f. Inr ''data:image/png;base64,BBBB'')
      [\<lparr>name = ''dog.png'', type = ''image/png'', content = ''...''\<rparr>] cat_edited)
     = Some ''data:image/png;base64,DDDD''"
  by (simp add: handleDrop_def handleDrop_file_def handleImageUpload_def truthy_def
      cat_edited_def cat_ready_def)

section \<open>Downloading\<close>

text \<open>
  Claim C9, as amended. The name offered for the download is \<open>edited-image.png\<close> when no
  file is held or its name is empty. When the name ends in a dot followed by one or more
  letters, digits, underscores or hyphens, the offered name is the name with \<open>_edited\<close>
  put before that dot. Any other name is offered as it is. A click on the download
  button with an edited image offers that image under this name.
\<close>

theorem download_name:
  "(originalFile s = None \<longrightarrow> fileName (originalFile s) = ''edited-image.png'') \<and>
   (\<forall>f. originalFile s = Some f \<and> name f = [] \<longrightarrow>
      fileName (originalFile s) = ''edited-image.png'') \<and>
   (\<forall>f base ext. originalFile s = Some f \<and> name f = base @ CHR ''.'' # ext \<and>
      ext \<noteq> [] \<and> list_all extChar ext \<longrightarrow>
      fileName (originalFile s) = base @ ''_edited'' @ CHR ''.'' # ext) \<and>
   (\<forall>f. originalFile s = Some f \<and> name f \<noteq> [] \<and>
      (\<forall>base ext. name f = base @ CHR ''.'' # ext \<longrightarrow> ext = [] \<or> \<not> list_all extChar ext) \<longrightarrow>
      fileName (originalFile s) = name f) \<and>
   (\<forall>href. editedImage s = Some href \<and> href \<noteq> [] \<longrightarrow>
      handleDownloadClick s = Some (href, fileName (originalFile s)))"
proof -
  have absent: "originalFile s = None \<Longrightarrow> fileName (originalFile s) = ''edited-image.png''"
    by (simp add: fileName_def)
  have unnamed: "fileName (originalFile s) = ''edited-image.png''"
    if "originalFile s = Some f" and "name f = []" for f
    using that by (simp add: fileName_def)
  have inserted: "fileName (originalFile s) = base @ ''_edited'' @ CHR ''.'' # ext"
    if "originalFile s = Some f" and "name f = base @ CHR ''.'' # ext"
      and "ext \<noteq> []" and "list_all extChar ext" for f base ext
    using that by (simp add: fileName_def replaceExtension_match)
  have unchanged: "fileName (originalFile s) = name f"
    if "originalFile s = Some f" and "name f \<noteq> []"
      and "\<forall>base ext. name f = base @ CHR ''.'' # ext \<longrightarrow> ext = [] \<or> \<not> list_all extChar ext"
    for f
  proof -
    have "replaceExtension (name f) = name f"
      by (rule replaceExtension_no_match) (use that(3) in blast)
    with that(1,2) show ?thesis by (simp add: fileName_def)
  qed
  have link: "handleDownloadClick s = Some (href, fileName (originalFile s))"
    if "editedImage s = Some href" and "href \<noteq> []" for href
    using that by (simp add: handleDownloadClick_def)
  show ?thesis
    using absent unnamed inserted unchanged link by blast
qed

text \<open>
  The example of the specification: the edited \<open>cat.png\<close> is offered as
  \<open>cat_edited.png\<close>; without a file the name is \<open>edited-image.png\<close>.
\<close>

theorem download_name_witness:
  "handleDownloadClick cat_edited = Some (''data:image/png;base64,DDDD'', ''cat_edited.png'') \<and>
   fileName (originalFile (cat_edited\<lparr>originalFile := None\<rparr>)) = ''edited-image.png''"
proof -
  have named: "originalFile cat_edited = Some cat_png \<and> name cat_png = ''cat'' @ CHR ''.'' # ''png'' \<and>
      ''png'' \<noteq> [] \<and> list_all extChar ''png''"
    by (simp add: cat_edited_def cat_ready_def cat_png_def extChar_def)
  have href: "editedImage cat_edited = Some ''data:image/png;base64,DDDD'' \<and>
      ''data:image/png;base64,DDDD'' \<noteq> []"
    by (simp add: cat_edited_def)
  have none: "originalFile (cat_edited\<lparr>originalFile := None\<rparr>) = None" by simp
  have a: "fileName (originalFile cat_edited) = ''cat'' @ ''_edited'' @ CHR ''.'' # ''png''"
    using download_name [of cat_edited] named by blast
  have b: "handleDownloadClick cat_edited =
      Some (''data:image/png;base64,DDDD'', fileName (originalFile cat_edited))"
    using download_name [of cat_edited] href by blast
  have c: "fileName (originalFile (cat_edited\<lparr>originalFile := None\<rparr>)) = ''edited-image.png''"
    using download_name [of "cat_edited\<lparr>originalFile := None\<rparr>"] none by blast
  from a b c show ?thesis by simp
qed

text \<open>
  The claim as worded puts \<open>_edited\<close> into every name that is available. A name with no
  extension, and a name whose extension ends in a tilde, are offered unchanged.
\<close>

theorem download_name_counterexample:
  "fileName (Some \<lparr>name = ''cat'', type = ''image/png'', content = ''...''\<rparr>) = ''cat'' \<and>
   fileName (Some \<lparr>name = ''cat.png~'', type = ''image/png'', content = ''...''\<rparr>) = ''cat.png~''"
  by (simp add: fileName_def matchesHere_def extChar_def)

end
